theory Spec2Isabelle
  imports Complex_Main "HOL-Library.Multiset"
begin

section \<open>Python values and exceptions\<close>

text \<open>
  The program is one Python file, \<^verbatim>\<open>jeopardy1.py\<close>. Python does not enforce the
  annotations of a dataclass: \<^verbatim>\<open>deserialize_board\<close> stores in \<^verbatim>\<open>id\<close>, \<^verbatim>\<open>name\<close>,
  \<^verbatim>\<open>prompt\<close>, ... whatever value the document holds under that key. The fields
  annotated \<^verbatim>\<open>str\<close> or \<^verbatim>\<open>Optional[str]\<close> are therefore Python values, of the
  kinds \<^verbatim>\<open>json.loads\<close> can return; \<^verbatim>\<open>None\<close> is \<open>PNone\<close>. The fields
  \<^verbatim>\<open>points\<close> and \<^verbatim>\<open>timer_seconds\<close> are always the result of \<^verbatim>\<open>int(...)\<close>,
  so they are integers. A \<open>PDict\<close> lists the items of a dict with \<^verbatim>\<open>str\<close> keys, each
  key once.
\<close>

datatype pyfloat = Finite rat | PosInf | NegInf | NaN

datatype pyval =
    PNone
  | PBool bool
  | PInt int
  | PFloat pyfloat
  | PStr string
  | PList "pyval list"
  | PDict "(string \<times> pyval) list"

datatype error =
    KeyError string
  | TypeError
  | AttributeError
  | ValueError
  | OverflowError
  | JSONDecodeError
  | UnicodeDecodeError


text \<open>\<^verbatim>\<open>x[k]\<close> with a string key: only a dict accepts it.\<close>

fun getitem :: "pyval \<Rightarrow> string \<Rightarrow> error + pyval" where
  "getitem (PDict kvs) k = (case map_of kvs k of Some v \<Rightarrow> Inr v | None \<Rightarrow> Inl (KeyError k))"
| "getitem x k = Inl TypeError"

text \<open>\<^verbatim>\<open>x.get(k, d)\<close>: a method of dict; no other JSON value has it.\<close>

fun py_get :: "pyval \<Rightarrow> string \<Rightarrow> pyval \<Rightarrow> error + pyval" where
  "py_get (PDict kvs) k d = Inr (case map_of kvs k of Some v \<Rightarrow> v | None \<Rightarrow> d)"
| "py_get x k d = Inl AttributeError"

text \<open>\<^verbatim>\<open>for x in v\<close>: a list gives its elements, a string its characters, a dict its keys.\<close>

fun py_iter :: "pyval \<Rightarrow> error + pyval list" where
  "py_iter (PList xs) = Inr xs"
| "py_iter (PStr s) = Inr (map (\<lambda>c. PStr [c]) s)"
| "py_iter (PDict kvs) = Inr (map (\<lambda>kv. PStr (fst kv)) kvs)"
| "py_iter x = Inl TypeError"

text \<open>
  \<^verbatim>\<open>int(x)\<close>. Parsing a string is the built-in's business and is a parameter
  \<open>int_str\<close> (\<open>None\<close>: the string is no integer literal); a float is truncated towards
  zero.
\<close>

fun py_int :: "(string \<Rightarrow> int option) \<Rightarrow> pyval \<Rightarrow> error + int" where
  "py_int int_str (PInt i) = Inr i"
| "py_int int_str (PBool b) = Inr (if b then 1 else 0)"
| "py_int int_str (PFloat (Finite r)) = Inr (if 0 \<le> r then \<lfloor>r\<rfloor> else \<lceil>r\<rceil>)"
| "py_int int_str (PFloat PosInf) = Inl OverflowError"
| "py_int int_str (PFloat NegInf) = Inl OverflowError"
| "py_int int_str (PFloat NaN) = Inl ValueError"
| "py_int int_str (PStr s) = (case int_str s of Some i \<Rightarrow> Inr i | None \<Rightarrow> Inl ValueError)"
| "py_int int_str x = Inl TypeError"

text \<open>Sequencing of calls that may raise: the first exception ends the evaluation.\<close>

definition and_then :: "error + 'a \<Rightarrow> ('a \<Rightarrow> error + 'b) \<Rightarrow> error + 'b" where
  "and_then r f = (case r of Inl e \<Rightarrow> Inl e | Inr x \<Rightarrow> f x)"

text \<open>A list comprehension \<^verbatim>\<open>[f(x) for x in xs]\<close> whose \<open>f\<close> may raise.\<close>

fun comprehension :: "('a \<Rightarrow> error + 'b) \<Rightarrow> 'a list \<Rightarrow> error + 'b list" where
  "comprehension f [] = Inr []"
| "comprehension f (x # xs) =
     and_then (f x) (\<lambda>y. and_then (comprehension f xs) (\<lambda>ys. Inr (y # ys)))"

section \<open>Data model\<close>

record MediaItem =
  kind :: pyval
  source :: pyval
  filename :: pyval
  mime :: pyval
  b64 :: pyval
  url :: pyval

text \<open>The field \<^verbatim>\<open>id\<close> of a question is \<open>q_id\<close>, that of a category \<open>c_id\<close>.\<close>

record Question =
  q_id :: pyval
  points :: int
  prompt :: pyval
  answer :: pyval
  media :: "MediaItem list"
  timer_seconds :: int

record Category =
  c_id :: pyval
  name :: pyval
  questions :: "Question list"

record Board =
  title :: pyval
  categories :: "Category list"

definition new_board :: Board where
  "new_board = \<lparr>title = PStr ''Jeopardy!'', categories = []\<rparr>"

section \<open>Serializer\<close>

text \<open>
  \<^verbatim>\<open>dataclasses.asdict\<close>: every dataclass becomes a dict of its fields, in the order
  of declaration, and every list a list.
\<close>

definition asdict_media :: "MediaItem \<Rightarrow> pyval" where
  "asdict_media m = PDict
     [(''kind'', kind m), (''source'', source m), (''filename'', filename m),
      (''mime'', mime m), (''b64'', b64 m), (''url'', url m)]"

definition asdict_question :: "Question \<Rightarrow> pyval" where
  "asdict_question q = PDict
     [(''id'', q_id q), (''points'', PInt (points q)), (''prompt'', prompt q),
      (''answer'', answer q), (''media'', PList (map asdict_media (media q))),
      (''timer_seconds'', PInt (timer_seconds q))]"

definition asdict_category :: "Category \<Rightarrow> pyval" where
  "asdict_category c = PDict
     [(''id'', c_id c), (''name'', name c),
      (''questions'', PList (map asdict_question (questions c)))]"

definition asdict :: "Board \<Rightarrow> pyval" where
  "asdict b = PDict
     [(''title'', title b), (''categories'', PList (map asdict_category (categories b)))]"

text \<open>
  \<^verbatim>\<open>json.dumps\<close> and \<^verbatim>\<open>json.loads\<close> belong to Python's library: they are the
  parameters \<open>dumps\<close> and \<open>loads\<close>, over any type \<open>'doc\<close> of documents.
\<close>

definition serialize_board :: "(pyval \<Rightarrow> 'doc) \<Rightarrow> Board \<Rightarrow> 'doc" where
  "serialize_board dumps board = dumps (asdict board)"

definition to_media :: "pyval \<Rightarrow> error + MediaItem" where
  "to_media m =
     and_then (getitem m ''kind'') (\<lambda>k.
     and_then (getitem m ''source'') (\<lambda>s.
     and_then (py_get m ''filename'' PNone) (\<lambda>f.
     and_then (py_get m ''mime'' PNone) (\<lambda>mi.
     and_then (py_get m ''b64'' PNone) (\<lambda>b.
     and_then (py_get m ''url'' PNone) (\<lambda>u.
       Inr \<lparr>kind = k, source = s, filename = f, mime = mi, b64 = b, url = u\<rparr>))))))"

definition to_q :: "(string \<Rightarrow> int option) \<Rightarrow> pyval \<Rightarrow> error + Question" where
  "to_q int_str q =
     and_then (getitem q ''id'') (\<lambda>i.
     and_then (getitem q ''points'') (\<lambda>p0.
     and_then (py_int int_str p0) (\<lambda>p.
     and_then (getitem q ''prompt'') (\<lambda>pr.
     and_then (getitem q ''answer'') (\<lambda>a.
     and_then (py_get q ''media'' (PList [])) (\<lambda>ms0.
     and_then (py_iter ms0) (\<lambda>ms1.
     and_then (comprehension to_media ms1) (\<lambda>ms.
     and_then (py_get q ''timer_seconds'' (PInt 30)) (\<lambda>t0.
     and_then (py_int int_str t0) (\<lambda>t.
       Inr \<lparr>q_id = i, points = p, prompt = pr, answer = a, media = ms,
            timer_seconds = t\<rparr>))))))))))"

definition to_cat :: "(string \<Rightarrow> int option) \<Rightarrow> pyval \<Rightarrow> error + Category" where
  "to_cat int_str c =
     and_then (getitem c ''id'') (\<lambda>i.
     and_then (getitem c ''name'') (\<lambda>n.
     and_then (py_get c ''questions'' (PList [])) (\<lambda>qs0.
     and_then (py_iter qs0) (\<lambda>qs1.
     and_then (comprehension (to_q int_str) qs1) (\<lambda>qs.
       Inr \<lparr>c_id = i, name = n, questions = qs\<rparr>)))))"

text \<open>
  \<^verbatim>\<open>deserialize_board\<close> is \<^verbatim>\<open>raw = json.loads(s)\<close> followed by the construction of
  the board from \<open>raw\<close>, which is \<open>board_of_raw\<close>. Keyword arguments are evaluated
  from left to right, so the first key that fails decides the exception.
\<close>

definition board_of_raw :: "(string \<Rightarrow> int option) \<Rightarrow> pyval \<Rightarrow> error + Board" where
  "board_of_raw int_str raw =
     and_then (py_get raw ''title'' (PStr ''Jeopardy!'')) (\<lambda>t.
     and_then (py_get raw ''categories'' (PList [])) (\<lambda>cs0.
     and_then (py_iter cs0) (\<lambda>cs1.
     and_then (comprehension (to_cat int_str) cs1) (\<lambda>cs.
       Inr \<lparr>title = t, categories = cs\<rparr>))))"

definition deserialize_board ::
  "('doc \<Rightarrow> error + pyval) \<Rightarrow> (string \<Rightarrow> int option) \<Rightarrow> 'doc \<Rightarrow> error + Board" where
  "deserialize_board loads int_str s = and_then (loads s) (board_of_raw int_str)"

section \<open>Session state\<close>

text \<open>
  \<^verbatim>\<open>st.session_state\<close>, with the keys \<^verbatim>\<open>ensure_state\<close> creates and the two
  widget keys the team form reads. \<^verbatim>\<open>active_qid = None\<close> is \<open>PNone\<close>. The upload
  id \<^verbatim>\<open>f"{name}:{len(bytes_data)}"\<close> is kept as the pair of its two parts.
\<close>

record session =
  board :: Board
  used_qids :: "pyval set"
  active_qid :: pyval
  reveal_answer :: bool
  scores :: "string \<rightharpoonup> int"
  team_colors :: "string \<rightharpoonup> string"
  upload_board_last :: "(string \<times> nat) option"
  new_team_name :: string
  new_team_color :: string

text \<open>The state \<^verbatim>\<open>ensure_state\<close> builds on the first run of the script.\<close>

definition ensure_state :: session where
  "ensure_state =
     \<lparr>board = new_board, used_qids = {}, active_qid = PNone, reveal_answer = False,
      scores = Map.empty, team_colors = Map.empty, upload_board_last = None,
      new_team_name = [], new_team_color = ''#4CAF50''\<rparr>"

fun find_in_categories :: "Category list \<Rightarrow> pyval \<Rightarrow> (Category \<times> Question) option" where
  "find_in_categories [] qid = None"
| "find_in_categories (cat # cats) qid =
     (case find (\<lambda>q. q_id q = qid) (questions cat) of
        Some q \<Rightarrow> Some (cat, q)
      | None \<Rightarrow> find_in_categories cats qid)"

definition find_question :: "Board \<Rightarrow> pyval \<Rightarrow> (Category \<times> Question) option" where
  "find_question b qid = find_in_categories (categories b) qid"





section \<open>Editor: removing a category, deleting a question, loading a board\<close>

text \<open>
  The handler of a category's Remove button (lines 180 to 185): the set comprehension
  over \<^verbatim>\<open>used_qids\<close> runs on the board as it is, then the category is filtered out.
\<close>

definition remove_category :: "Category \<Rightarrow> session \<Rightarrow> session" where
  "remove_category cat st =
     (let st1 = st\<lparr>used_qids := {qid \<in> used_qids st. find_question (board st) qid \<noteq> None}\<rparr>;
          st2 = st1\<lparr>board := (board st1)\<lparr>categories :=
                    filter (\<lambda>c. c_id c \<noteq> c_id cat) (categories (board st1))\<rparr>\<rparr>
      in st2)"



section \<open>Scoreboard\<close>

text \<open>\<^verbatim>\<open>str.strip()\<close> on one-byte characters.\<close>

definition py_isspace :: "char \<Rightarrow> bool" where
  "py_isspace c = ((of_char c :: nat) \<in> {9, 10, 11, 12, 13, 28, 29, 30, 31, 32, 133, 160})"

definition strip :: "string \<Rightarrow> string" where
  "strip s = rev (dropWhile py_isspace (rev (dropWhile py_isspace s)))"

definition setdefault :: "('k \<rightharpoonup> 'v) \<Rightarrow> 'k \<Rightarrow> 'v \<Rightarrow> ('k \<rightharpoonup> 'v)" where
  "setdefault m k v = (case m k of None \<Rightarrow> m(k \<mapsto> v) | Some old \<Rightarrow> m)"

definition add_team :: "session \<Rightarrow> session" where
  "add_team st =
     (let name = strip (new_team_name st);
          color = new_team_color st
      in if name \<noteq> [] \<and> scores st name = None then
           st\<lparr>scores := setdefault (scores st) name 0,
              team_colors := setdefault (team_colors st) name color,
              new_team_name := [],
              new_team_color := color\<rparr>
         else st)"

definition inc_score :: "string \<Rightarrow> int \<Rightarrow> session \<Rightarrow> session" where
  "inc_score team delta st =
     (case scores st team of
        Some v \<Rightarrow> st\<lparr>scores := (scores st)(team \<mapsto> v + delta)\<rparr>
      | None \<Rightarrow> st)"

definition remove_team :: "string \<Rightarrow> session \<Rightarrow> session" where
  "remove_team team st =
     (if scores st team \<noteq> None
      then st\<lparr>scores := (scores st)(team := None),
              team_colors := (team_colors st)(team := None)\<rparr>
      else st)"

section \<open>Game board\<close>

text \<open>
  \<^verbatim>\<open>sorted(xs, key=k, reverse=True)\<close> is a stable sort, and \<^verbatim>\<open>reverse=True\<close>
  keeps it stable: on integer keys it is the ascending stable sort by the negated key.
  It returns a new list, so line 497 is a function of the board.
\<close>

definition sorted_reverse :: "('a \<Rightarrow> int) \<Rightarrow> 'a list \<Rightarrow> 'a list" where
  "sorted_reverse k xs = sort_key (\<lambda>x. - k x) xs"

definition sorted_qs :: "Board \<Rightarrow> Question list list" where
  "sorted_qs b = map (\<lambda>c. sorted_reverse points (questions c)) (categories b)"

text \<open>The grid of line 497 and the session after it: nothing is assigned.\<close>

definition render_grid :: "session \<Rightarrow> Question list list \<times> session" where
  "render_grid st = (sorted_qs (board st), st)"







text \<open>Reset Used Questions (lines 602 to 605).\<close>

definition reset_used :: "session \<Rightarrow> session" where
  "reset_used st = st\<lparr>used_qids := {}, active_qid := PNone, reveal_answer := False\<rparr>"

section \<open>A board and some documents\<close>

text \<open>
  The board of the specification's scenario: one category "History" with the questions
  (100, Q1, A1) and (500, Q2, A2); the first has an uploaded image and a linked sound.
\<close>

definition demo_q1 :: Question where
  "demo_q1 = \<lparr>q_id = PStr ''q1'', points = 100, prompt = PStr ''Q1'', answer = PStr ''A1'',
     media = [\<lparr>kind = PStr ''image'', source = PStr ''upload'', filename = PStr ''map.png'',
               mime = PStr ''image/png'', b64 = PStr ''iVBORw0KGgo='', url = PNone\<rparr>,
              \<lparr>kind = PStr ''audio'', source = PStr ''url'', filename = PNone, mime = PNone,
               b64 = PNone, url = PStr ''https://example.org/a.mp3''\<rparr>],
     timer_seconds = 30\<rparr>"

definition demo_q2 :: Question where
  "demo_q2 = \<lparr>q_id = PStr ''q2'', points = 500, prompt = PStr ''Q2'', answer = PStr ''A2'',
     media = [], timer_seconds = 45\<rparr>"

definition demo_cat :: Category where
  "demo_cat = \<lparr>c_id = PStr ''c1'', name = PStr ''History'', questions = [demo_q1, demo_q2]\<rparr>"

definition demo_board :: Board where
  "demo_board = \<lparr>title = PStr ''Quiz'', categories = [demo_cat]\<rparr>"

definition demo_session :: session where
  "demo_session = ensure_state\<lparr>board := demo_board\<rparr>"

text \<open>The session after Q1 was marked used and Q2 selected.\<close>

definition demo_played :: session where
  "demo_played = demo_session\<lparr>used_qids := {PStr ''q1''}, active_qid := PStr ''q2''\<rparr>"







section \<open>Basic facts\<close>

lemma and_then_Inr [simp]: "and_then (Inr x) f = f x"
  by (simp add: and_then_def)

lemma and_then_Inl [simp]: "and_then (Inl e) f = Inl e"
  by (simp add: and_then_def)

lemma and_then_Inl_iff:
  "and_then r f = Inl e \<longleftrightarrow> r = Inl e \<or> (\<exists>x. r = Inr x \<and> f x = Inl e)"
  by (cases r) auto

lemma comprehension_map:
  "(\<And>x. x \<in> set xs \<Longrightarrow> f (g x) = Inr x) \<Longrightarrow> comprehension f (map g xs) = Inr xs"
  by (induction xs) simp_all

lemma comprehension_Inl:
  "comprehension f xs = Inl e \<Longrightarrow> \<exists>x\<in>set xs. f x = Inl e"
proof (induction xs)
  case Nil
  then show ?case by simp
next
  case (Cons x xs)
  then show ?case
    by (cases "f x"; cases "comprehension f xs") auto
qed

section \<open>Serializer: round trip\<close>

lemma to_media_asdict: "to_media (asdict_media m) = Inr m"
  by (simp add: to_media_def asdict_media_def)

lemma to_q_asdict: "to_q int_str (asdict_question q) = Inr q"
  by (simp add: to_q_def asdict_question_def comprehension_map to_media_asdict)

lemma to_cat_asdict: "to_cat int_str (asdict_category c) = Inr c"
  by (simp add: to_cat_def asdict_category_def comprehension_map to_q_asdict)

lemma board_of_raw_asdict: "board_of_raw int_str (asdict b) = Inr b"
  by (simp add: board_of_raw_def asdict_def comprehension_map to_cat_asdict)

text \<open>
  C1. For every board \<open>b\<close>, deserializing the serialized board gives \<open>b\<close> back, field
  for field: title, categories with id, name and order, questions with id, points,
  prompt, answer, timer and order, media items with kind, source, filename, mime, b64
  and url. The JSON library enters through one fact, that \<^verbatim>\<open>json.loads\<close> reads
  back the value \<^verbatim>\<open>json.dumps\<close> wrote.
\<close>

theorem C1_roundtrip:
  assumes "loads (dumps (asdict b)) = Inr (asdict b)"
  shows "deserialize_board loads int_str (serialize_board dumps b) = Inr b"
  using assms by (simp add: deserialize_board_def serialize_board_def board_of_raw_asdict)

theorem C1_roundtrip_witness:
  "Inr ((\<lambda>v. v) (asdict demo_board)) = (Inr (asdict demo_board) :: error + pyval)
   \<and> deserialize_board Inr (\<lambda>s. None) (serialize_board (\<lambda>v. v) demo_board) = Inr demo_board"
  using C1_roundtrip [of Inr "\<lambda>v. v" demo_board "\<lambda>s. None"] by simp

section \<open>Serializer: which keys can be missed\<close>

lemma getitem_KeyError: "getitem x k = Inl (KeyError k') \<Longrightarrow> k' = k"
  by (cases x) (auto split: option.splits)

lemma py_get_not_KeyError: "py_get x k d \<noteq> Inl (KeyError k')"
  by (cases x) auto

lemma py_iter_not_KeyError: "py_iter x \<noteq> Inl (KeyError k')"
  by (cases x) auto

lemma py_int_not_KeyError: "py_int int_str x \<noteq> Inl (KeyError k')"
  by (cases "(int_str, x)" rule: py_int.cases) (auto split: option.splits)

lemma to_media_KeyError:
  "to_media m = Inl (KeyError k) \<Longrightarrow> k \<in> {''kind'', ''source''}"
  unfolding to_media_def and_then_Inl_iff
  by (auto dest: getitem_KeyError simp: py_get_not_KeyError)

lemma to_q_KeyError:
  "to_q int_str q = Inl (KeyError k) \<Longrightarrow>
     k \<in> {''id'', ''points'', ''prompt'', ''answer'', ''kind'', ''source''}"
  unfolding to_q_def and_then_Inl_iff
  by (auto dest!: getitem_KeyError comprehension_Inl to_media_KeyError
      simp: py_get_not_KeyError py_iter_not_KeyError py_int_not_KeyError)

lemma to_cat_KeyError:
  "to_cat int_str c = Inl (KeyError k) \<Longrightarrow>
     k \<in> {''id'', ''name'', ''points'', ''prompt'', ''answer'', ''kind'', ''source''}"
  unfolding to_cat_def and_then_Inl_iff
  by (auto dest!: getitem_KeyError comprehension_Inl to_q_KeyError
      simp: py_get_not_KeyError py_iter_not_KeyError)

lemma board_of_raw_KeyError:
  "board_of_raw int_str raw = Inl (KeyError k) \<Longrightarrow>
     k \<in> {''id'', ''name'', ''points'', ''prompt'', ''answer'', ''kind'', ''source''}"
  unfolding board_of_raw_def and_then_Inl_iff
  by (auto dest!: comprehension_Inl to_cat_KeyError
      simp: py_get_not_KeyError py_iter_not_KeyError)

text \<open>
  C10. When the document parses as a JSON object, a missing \<^verbatim>\<open>categories\<close> gives the
  empty category list and the call succeeds; a missing \<^verbatim>\<open>title\<close> behaves exactly as
  the title "Jeopardy!" written in the document; with both missing the result is the
  new board; and in no case is a missing \<^verbatim>\<open>title\<close> or \<^verbatim>\<open>categories\<close> reported.
\<close>

theorem C10_top_level_defaults:
  assumes "loads s = Inr (PDict kvs)"
  shows "(map_of kvs ''categories'' = None \<longrightarrow>
            deserialize_board loads int_str s =
              Inr \<lparr>title = (case map_of kvs ''title'' of Some t \<Rightarrow> t | None \<Rightarrow> PStr ''Jeopardy!''),
                   categories = []\<rparr>)
       \<and> (map_of kvs ''title'' = None \<longrightarrow>
            deserialize_board loads int_str s =
              board_of_raw int_str (PDict ((''title'', PStr ''Jeopardy!'') # kvs)))
       \<and> (map_of kvs ''title'' = None \<and> map_of kvs ''categories'' = None \<longrightarrow>
            deserialize_board loads int_str s = Inr new_board)
       \<and> deserialize_board loads int_str s \<noteq> Inl (KeyError ''title'')
       \<and> deserialize_board loads int_str s \<noteq> Inl (KeyError ''categories'')"
proof -
  have d: "deserialize_board loads int_str s = board_of_raw int_str (PDict kvs)"
    using assms by (simp add: deserialize_board_def)
  have a: "map_of kvs ''categories'' = None \<Longrightarrow>
      board_of_raw int_str (PDict kvs) =
        Inr \<lparr>title = (case map_of kvs ''title'' of Some t \<Rightarrow> t | None \<Rightarrow> PStr ''Jeopardy!''),
             categories = []\<rparr>"
    by (simp add: board_of_raw_def)
  have b: "map_of kvs ''title'' = None \<Longrightarrow>
      board_of_raw int_str (PDict kvs) =
        board_of_raw int_str (PDict ((''title'', PStr ''Jeopardy!'') # kvs))"
    by (simp add: board_of_raw_def)
  have c: "board_of_raw int_str (PDict kvs) \<noteq> Inl (KeyError ''title'')"
    using board_of_raw_KeyError [of int_str "PDict kvs" "''title''"] by auto
  have c': "board_of_raw int_str (PDict kvs) \<noteq> Inl (KeyError ''categories'')"
    using board_of_raw_KeyError [of int_str "PDict kvs" "''categories''"] by auto
  show ?thesis
    using a b c c' by (simp add: d new_board_def)
qed

theorem C10_top_level_defaults_witness:
  "(Inr (PDict []) :: error + pyval) = Inr (PDict [])
   \<and> deserialize_board Inr (\<lambda>s. None) (PDict []) = Inr new_board"
  using C10_top_level_defaults [of Inr "PDict []" "[]" "\<lambda>s. None"]
  by (simp add: new_board_def)

section \<open>Loading a document\<close>









section \<open>The object \<^verbatim>\<open>find_question\<close> returns\<close>









section \<open>Editor: removing a category, deleting a question\<close>

text \<open>
  C2. On the board of the scenario, with Q1 used and Q2 open, removing the category
  leaves the id of Q1 in \<^verbatim>\<open>used_qids\<close> and the id of Q2 in \<^verbatim>\<open>active_qid\<close>, though the
  board has no category left: the set of used ids is pruned before the category is
  removed, and \<^verbatim>\<open>active_qid\<close> is never assigned.
\<close>

theorem C2_remove_category_keeps_references:
  "categories (board (remove_category demo_cat demo_played)) = []
   \<and> PStr ''q1'' \<in> used_qids (remove_category demo_cat demo_played)
   \<and> active_qid (remove_category demo_cat demo_played) = PStr ''q2''"
  by (simp add: remove_category_def demo_played_def demo_session_def ensure_state_def
      demo_board_def demo_cat_def demo_q1_def demo_q2_def find_question_def Let_def)




section \<open>Game board\<close>

lemma sorted_reverse_sorted:
  "sorted_wrt (\<lambda>x y. k y \<le> k x) (sorted_reverse k xs)"
proof -
  have "sorted (map (\<lambda>x. - k x) (sort_key (\<lambda>x. - k x) xs))"
    by (rule sorted_sort_key)
  then show ?thesis
    by (simp add: sorted_reverse_def sorted_map)
qed

lemma sorted_reverse_mset: "mset (sorted_reverse k xs) = mset xs"
  by (simp add: sorted_reverse_def)

lemma sorted_reverse_stable:
  "filter (\<lambda>x. k x = v) (sorted_reverse k xs) = filter (\<lambda>x. k x = v) xs"
proof -
  have "filter (\<lambda>x. - k x = - v) (sort_key (\<lambda>x. - k x) xs) = filter (\<lambda>x. - k x = - v) xs"
    by (rule sort_key_stable)
  then show ?thesis by (simp add: sorted_reverse_def)
qed

text \<open>
  C5. The grid shows, for each category in the board's order, the questions of the
  category (the same ones, as a multiset) by points descending, and for every value
  of points the questions with that value in the order they have in the category's
  list; building the grid leaves the session, and so every question list, as it is.
\<close>

theorem C5_display_order:
  "list_all2 (\<lambda>c shown.
       sorted_wrt (\<lambda>x y. points y \<le> points x) shown
     \<and> mset shown = mset (questions c)
     \<and> (\<forall>p. filter (\<lambda>q. points q = p) shown = filter (\<lambda>q. points q = p) (questions c)))
     (categories (board st)) (fst (render_grid st))
   \<and> snd (render_grid st) = st"
  by (simp add: render_grid_def sorted_qs_def list.rel_map list.rel_refl
      sorted_reverse_sorted sorted_reverse_mset sorted_reverse_stable)

theorem C5_display_order_witness:
  "fst (render_grid demo_session) = [[demo_q2, demo_q1]]
   \<and> map (map points) (fst (render_grid demo_session)) = [[500, 100]]
   \<and> questions demo_cat = [demo_q1, demo_q2]
   \<and> list_all2 (\<lambda>c shown.
       sorted_wrt (\<lambda>x y. points y \<le> points x) shown
     \<and> mset shown = mset (questions c)
     \<and> (\<forall>p. filter (\<lambda>q. points q = p) shown = filter (\<lambda>q. points q = p) (questions c)))
     (categories (board demo_session)) (fst (render_grid demo_session))"
proof -
  have "fst (render_grid demo_session) = [[demo_q2, demo_q1]]"
    by (simp add: render_grid_def sorted_qs_def sorted_reverse_def demo_session_def
        demo_board_def demo_cat_def demo_q1_def demo_q2_def)
  moreover have "points demo_q2 = 500" "points demo_q1 = 100"
    by (simp_all add: demo_q1_def demo_q2_def)
  moreover have "questions demo_cat = [demo_q1, demo_q2]"
    by (simp add: demo_cat_def)
  ultimately show ?thesis
    using C5_display_order [of demo_session] by simp
qed




section \<open>Countdown\<close>






section \<open>Scoreboard and reset\<close>

text \<open>
  C8. A team added under a name that is new and not empty has the score 0, and 100
  added and then 300 taken away leave it at -200; \<^verbatim>\<open>inc_score\<close> adds the delta to
  the score of a team that is there, whatever the sign of the result, and changes
  nothing for a name that is not in \<^verbatim>\<open>scores\<close>; \<^verbatim>\<open>remove_team\<close> takes a team that is
  there out of \<^verbatim>\<open>scores\<close> and \<^verbatim>\<open>team_colors\<close>, and changes nothing for a name that is
  not in \<^verbatim>\<open>scores\<close>.
\<close>

theorem C8_scoreboard:
  "(strip (new_team_name st) = team \<and> team \<noteq> [] \<and> scores st team = None \<longrightarrow>
      scores (add_team st) team = Some 0
      \<and> scores (inc_score team (- 300) (inc_score team 100 (add_team st))) team = Some (- 200))
   \<and> (scores st team = Some v \<longrightarrow>
        scores (inc_score team delta st) team = Some (v + delta))
   \<and> (scores st team = None \<longrightarrow> inc_score team delta st = st)
   \<and> (scores st team \<noteq> None \<longrightarrow>
        scores (remove_team team st) team = None
        \<and> team_colors (remove_team team st) team = None)
   \<and> (scores st team = None \<longrightarrow> remove_team team st = st)"
  by (auto simp: add_team_def inc_score_def remove_team_def setdefault_def Let_def)

theorem C8_scoreboard_witness:
  "strip (new_team_name (ensure_state\<lparr>new_team_name := '' A ''\<rparr>)) = ''A''
   \<and> scores (add_team (ensure_state\<lparr>new_team_name := '' A ''\<rparr>)) ''A'' = Some 0
   \<and> scores (inc_score ''A'' (- 300) (inc_score ''A'' 100
        (add_team (ensure_state\<lparr>new_team_name := '' A ''\<rparr>)))) ''A'' = Some (- 200)
   \<and> inc_score ''A'' 50 (remove_team ''A'' (add_team (ensure_state\<lparr>new_team_name := '' A ''\<rparr>)))
       = remove_team ''A'' (add_team (ensure_state\<lparr>new_team_name := '' A ''\<rparr>))"
proof -
  let ?st = "ensure_state\<lparr>new_team_name := '' A ''\<rparr>"
  have n: "strip (new_team_name ?st) = ''A''"
    by (simp add: strip_def py_isspace_def)
  have f: "scores ?st ''A'' = None"
    by (simp add: ensure_state_def)
  from C8_scoreboard [of ?st "''A''"] n f
  have a: "scores (add_team ?st) ''A'' = Some 0"
    and b: "scores (inc_score ''A'' (- 300) (inc_score ''A'' 100 (add_team ?st))) ''A''
              = Some (- 200)"
    by simp_all
  from a have "scores (add_team ?st) ''A'' \<noteq> None" by simp
  with C8_scoreboard [of "add_team ?st" "''A''"]
  have "scores (remove_team ''A'' (add_team ?st)) ''A'' = None" by blast
  with C8_scoreboard [of "remove_team ''A'' (add_team ?st)" "''A''" _ 50]
  have "inc_score ''A'' 50 (remove_team ''A'' (add_team ?st)) = remove_team ''A'' (add_team ?st)"
    by blast
  with n a b show ?thesis by blast
qed

text \<open>
  C9. The reset empties \<^verbatim>\<open>used_qids\<close>, sets \<^verbatim>\<open>active_qid\<close> to \<^verbatim>\<open>None\<close> and
  \<^verbatim>\<open>reveal_answer\<close> to false, and leaves the board, the scores, the team colours and
  every other key of the session as they are.
\<close>

theorem C9_reset_used:
  "used_qids (reset_used st) = {} \<and> active_qid (reset_used st) = PNone
   \<and> reveal_answer (reset_used st) = False
   \<and> board (reset_used st) = board st \<and> scores (reset_used st) = scores st
   \<and> team_colors (reset_used st) = team_colors st
   \<and> upload_board_last (reset_used st) = upload_board_last st
   \<and> new_team_name (reset_used st) = new_team_name st
   \<and> new_team_color (reset_used st) = new_team_color st"
  by (simp add: reset_used_def)

end
